theory Spec2Isabelle
  imports Main "HOL-Library.Word"
begin

section \<open>The SPI transceiver analyzer of SpiTransceiver.py\<close>

text \<open>
  The analyzer is a class with four fields, driven one input frame at a time through
  \<open>decode\<close>. The embedding passes the object explicitly: every method takes the state and
  returns the new one. An exception is a value \<open>Inl e\<close> of a sum type; a method that raises
  leaves the object as it was, because every assignment of the source comes after the last
  expression that can raise.

  Timestamps are objects of the host library. The analyzer only stores them, tests them
  against \<open>None\<close> and formats them into a message, so their type is a parameter \<open>'ts\<close> and
  their rendering a function \<open>str_time\<close> handed to the methods that format.
\<close>

subsection \<open>The command table\<close>

type_synonym byte = "8 word"

text \<open>The dictionary literal, entry by entry, in the order of the source.\<close>

definition COMMANDS :: "(byte \<times> string) list" where
  "COMMANDS =
    [(0x89, ''Calibrate''),
     (0x98, ''CalibrateImage''),
     (0x08, ''CfgDioIrq''),
     (0x07, ''ClrError''),
     (0x02, ''ClrIrqStatus''),
     (0x17, ''GetError''),
     (0x12, ''GetIrqStatus''),
     (0x14, ''GetPacketStatus''),
     (0x11, ''GetPacketType''),
     (0x15, ''GetRssiInst''),
     (0x13, ''GetRxBufferStatus''),
     (0x10, ''GetStats''),
     (0xC0, ''GetStatus''),
     (0x1E, ''ReadBuffer''),
     (0x1D, ''RegRegister''),
     (0x00, ''ResetStats''),
     (0x8F, ''SetBufferBaseAddress''),
     (0xC5, ''SetCad''),
     (0x88, ''SetCadParams''),
     (0xC1, ''SetFs''),
     (0xA0, ''SetLoRaSymbTimeout''),
     (0x8B, ''SetModulationParams''),
     (0x8C, ''SetPacketParams''),
     (0x8A, ''SetPacketType''),
     (0x95, ''SetPaConfig''),
     (0x96, ''SetRegulatorMode''),
     (0x86, ''SetRfFrequency''),
     (0x82, ''SetRx''),
     (0x94, ''SetRxDutyCycle''),
     (0x84, ''SetSleep''),
     (0x80, ''SetStandby''),
     (0x9F, ''SetStopRxTimerOnPreamble''),
     (0x97, ''SetTcxoMode''),
     (0x83, ''SetTx''),
     (0xD2, ''SetTxContinuousPreamble''),
     (0xD1, ''SetTxContinuousWave''),
     (0x8E, ''SetTxParams''),
     (0x93, ''SetTxRxFallbackMode''),
     (0x0E, ''WriteBuffer''),
     (0x0D, ''WriteRegister'')]"

text \<open>\<open>d.get(k, default)\<close> of a dictionary given by its entries.\<close>

definition dict_get :: "('k \<times> 'v) list \<Rightarrow> 'k \<Rightarrow> 'v \<Rightarrow> 'v" where
  "dict_get d k dflt = (case map_of d k of None \<Rightarrow> dflt | Some v \<Rightarrow> v)"

subsection \<open>Frames\<close>

text \<open>
  An input frame has a type tag, two timestamps and a data dictionary. The only entries the
  analyzer ever reads are the byte strings \<open>miso\<close> and \<open>mosi\<close> of a frame it has stored, so
  they are fields of the record; a byte string may have any length, the empty one included.
\<close>

record 'ts frame =
  frame_type :: string
  start_time :: 'ts
  end_time :: 'ts
  miso :: "byte list"
  mosi :: "byte list"

text \<open>
  A frame built by the analyzer. Its times are the arguments of the constructor call: either
  a field of the object, which may hold \<open>None\<close>, or a time of the input frame. Its data
  dictionary has string values.
\<close>

record 'ts result_frame =
  rtype :: string
  rstart :: "'ts option"
  rend :: "'ts option"
  rdata :: "(string \<times> string) list"

subsection \<open>The analyzer object\<close>

record 'ts SpiTransceiver =
  frames :: "'ts frame list"
  spi_enable :: bool
  transaction_start_time :: "'ts option"
  transaction_end_time :: "'ts option"

datatype py_error = IndexError

text \<open>The constructor.\<close>

definition init :: "'ts SpiTransceiver" where
  "init = \<lparr>frames = [], spi_enable = False,
           transaction_start_time = None, transaction_end_time = None\<rparr>"

definition handle_enable :: "'ts SpiTransceiver \<Rightarrow> 'ts frame \<Rightarrow> 'ts SpiTransceiver" where
  "handle_enable s f =
     s\<lparr>frames := [], spi_enable := True,
       transaction_start_time := None, transaction_end_time := None\<rparr>"

definition reset :: "'ts SpiTransceiver \<Rightarrow> 'ts SpiTransceiver" where
  "reset s =
     s\<lparr>frames := [], spi_enable := False,
       transaction_start_time := None, transaction_end_time := None\<rparr>"

definition is_valid_transaction :: "'ts SpiTransceiver \<Rightarrow> bool" where
  "is_valid_transaction s \<longleftrightarrow> spi_enable s \<and> transaction_start_time s \<noteq> None"

definition handle_result :: "'ts SpiTransceiver \<Rightarrow> 'ts frame \<Rightarrow> 'ts SpiTransceiver" where
  "handle_result s f =
     (if spi_enable s then
        (let s1 = (if transaction_start_time s = None
                   then s\<lparr>transaction_start_time := Some (start_time f)\<rparr> else s);
             s2 = s1\<lparr>transaction_end_time := Some (end_time f)\<rparr>
         in s2\<lparr>frames := frames s2 @ [f]\<rparr>)
      else s)"

text \<open>The two byte strings that \<open>get_frame_data\<close> returns under the keys miso and mosi.\<close>

record transaction =
  tx_miso :: "byte list"
  tx_mosi :: "byte list"

text \<open>The loop of \<open>get_frame_data\<close> over the stored frames, with its two accumulators.\<close>

fun frame_data_loop :: "'ts frame list \<Rightarrow> byte list \<Rightarrow> byte list \<Rightarrow> transaction" where
  "frame_data_loop [] mi mo = \<lparr>tx_miso = mi, tx_mosi = mo\<rparr>"
| "frame_data_loop (f # fs) mi mo = frame_data_loop fs (mi @ miso f) (mo @ mosi f)"

definition get_frame_data :: "'ts SpiTransceiver \<Rightarrow> transaction" where
  "get_frame_data s = frame_data_loop (frames s) [] []"

text \<open>Indexing a byte string at 0 raises on the empty string.\<close>

definition index0 :: "byte list \<Rightarrow> py_error + byte" where
  "index0 bs = (case bs of [] \<Rightarrow> Inl IndexError | b # _ \<Rightarrow> Inr b)"

text \<open>What \<open>format\<close> writes for a truth value and for a field that may hold \<open>None\<close>.\<close>

definition str_bool :: "bool \<Rightarrow> string" where
  "str_bool b = (if b then ''True'' else ''False'')"

definition str_opt :: "('ts \<Rightarrow> string) \<Rightarrow> 'ts option \<Rightarrow> string" where
  "str_opt str_time t = (case t of None \<Rightarrow> ''None'' | Some x \<Rightarrow> str_time x)"

definition invalid_message :: "('ts \<Rightarrow> string) \<Rightarrow> 'ts SpiTransceiver \<Rightarrow> string" where
  "invalid_message str_time s =
     ''Invalid SPI transaction (spi_enable='' @ str_bool (spi_enable s)
       @ '', transaction_start_time='' @ str_opt str_time (transaction_start_time s) @ '')''"

text \<open>
  \<open>handle_disable\<close> returns the frame it built and the object after \<open>reset\<close>. When the
  indexing raises, neither the return nor the reset is reached.
\<close>

definition handle_disable ::
  "('ts \<Rightarrow> string) \<Rightarrow> 'ts SpiTransceiver \<Rightarrow> 'ts frame
     \<Rightarrow> py_error + ('ts result_frame \<times> 'ts SpiTransceiver)" where
  "handle_disable str_time s f =
     (if is_valid_transaction s then
        (case index0 (tx_mosi (get_frame_data s)) of
           Inl e \<Rightarrow> Inl e
         | Inr cmd \<Rightarrow>
             Inr (\<lparr>rtype = ''command'',
                   rstart = transaction_start_time s,
                   rend = transaction_end_time s,
                   rdata = [(''cmd'', dict_get COMMANDS cmd ''Unknown'')]\<rparr>,
                  reset s))
      else
        Inr (\<lparr>rtype = ''error'',
              rstart = Some (start_time f),
              rend = Some (end_time f),
              rdata = [(''error_info'', invalid_message str_time s)]\<rparr>,
             reset s))"

text \<open>\<open>handle_error\<close> prints one line and returns nothing; the line is its value here.\<close>

definition handle_error :: "'ts SpiTransceiver \<Rightarrow> 'ts frame \<Rightarrow> string" where
  "handle_error s f =
     ''Received '' @ [CHR 0x27] @ ''error'' @ [CHR 0x27] @ '' type from input analyzer''"

text \<open>
  \<open>decode\<close> returns three things: the frame handed back to the host (\<open>None\<close> when the
  method returns nothing), the object afterwards, and the lines printed during the call.
\<close>

type_synonym 'ts outcome =
  "py_error + ('ts result_frame option \<times> 'ts SpiTransceiver \<times> string list)"

definition decode :: "('ts \<Rightarrow> string) \<Rightarrow> 'ts SpiTransceiver \<Rightarrow> 'ts frame \<Rightarrow> 'ts outcome" where
  "decode str_time s f =
     (if frame_type f = ''enable'' then Inr (None, handle_enable s f, [])
      else if frame_type f = ''result'' then Inr (None, handle_result s f, [])
      else if frame_type f = ''disable'' then
        (case handle_disable str_time s f of
           Inl e \<Rightarrow> Inl e
         | Inr (r, s') \<Rightarrow> Inr (Some r, s', []))
      else if frame_type f = ''error'' then Inr (None, s, [handle_error s f])
      else
        Inr (Some \<lparr>rtype = ''error'',
                    rstart = Some (start_time f),
                    rend = Some (end_time f),
                    rdata = [(''error_info'',
                              ''Unexpected frame type from input analyzer: '' @ frame_type f)]\<rparr>,
             s, []))"

text \<open>
  The host calls \<open>decode\<close> once per input frame, in order, on one object. \<open>run\<close> does so for
  a list of frames and collects the frames handed back; an exception ends the run.
\<close>

fun run ::
  "('ts \<Rightarrow> string) \<Rightarrow> 'ts SpiTransceiver \<Rightarrow> 'ts frame list
     \<Rightarrow> py_error + ('ts result_frame list \<times> 'ts SpiTransceiver)" where
  "run str_time s [] = Inr ([], s)"
| "run str_time s (f # fs) =
     (case decode str_time s f of
        Inl e \<Rightarrow> Inl e
      | Inr (r, s', out) \<Rightarrow>
          (case run str_time s' fs of
             Inl e \<Rightarrow> Inl e
           | Inr (rs, s'') \<Rightarrow> Inr ((case r of None \<Rightarrow> [] | Some x \<Rightarrow> [x]) @ rs, s'')))"

subsection \<open>Auxiliary definitions\<close>

text \<open>
  In the worked examples a time is a number of nanoseconds, written in decimal.
\<close>

fun decimal :: "nat \<Rightarrow> string" where
  "decimal n = (if n < 10 then [''0123456789'' ! n]
                else decimal (n div 10) @ [''0123456789'' ! (n mod 10)])"

declare decimal.simps [simp del]

text \<open>
  What every object built by the constructor and driven through \<open>decode\<close> satisfies when
  each byte frame carries at least one host-to-device byte: a recorded start time comes with
  a stored frame, and no stored frame has an empty \<open>mosi\<close>.
\<close>

definition session_inv :: "'ts SpiTransceiver \<Rightarrow> bool" where
  "session_inv s \<longleftrightarrow>
     (transaction_start_time s \<noteq> None \<longrightarrow> frames s \<noteq> []) \<and>
     (\<forall>f \<in> set (frames s). mosi f \<noteq> [])"

section \<open>Properties\<close>

subsection \<open>Auxiliary facts\<close>

lemma frame_data_loop_mosi:
  "tx_mosi (frame_data_loop fs mi mo) = mo @ concat (map mosi fs)"
  by (induction fs arbitrary: mi mo) simp_all

lemma frame_data_loop_miso:
  "tx_miso (frame_data_loop fs mi mo) = mi @ concat (map miso fs)"
  by (induction fs arbitrary: mi mo) simp_all

lemma get_frame_data_mosi: "tx_mosi (get_frame_data s) = concat (map mosi (frames s))"
  by (simp add: get_frame_data_def frame_data_loop_mosi)

lemma handle_result_open:
  assumes "spi_enable s"
  shows "spi_enable (handle_result s f)"
    and "frames (handle_result s f) = frames s @ [f]"
    and "transaction_end_time (handle_result s f) = Some (end_time f)"
    and "transaction_start_time (handle_result s f) =
           (case transaction_start_time s of None \<Rightarrow> Some (start_time f) | Some t \<Rightarrow> Some t)"
  using assms by (simp_all add: handle_result_def Let_def split: option.split)

lemma handle_result_closed: "\<not> spi_enable s \<Longrightarrow> handle_result s f = s"
  by (simp add: handle_result_def)

lemma foldl_handle_result_open:
  assumes "spi_enable s"
  shows "spi_enable (foldl handle_result s fs)
       \<and> frames (foldl handle_result s fs) = frames s @ fs
       \<and> transaction_start_time (foldl handle_result s fs) =
           (case transaction_start_time s of
              None \<Rightarrow> (if fs = [] then None else Some (start_time (hd fs)))
            | Some t \<Rightarrow> Some t)
       \<and> transaction_end_time (foldl handle_result s fs) =
           (if fs = [] then transaction_end_time s else Some (end_time (last fs)))"
  using assms
proof (induction fs arbitrary: s)
  case Nil
  then show ?case by (simp split: option.split)
next
  case (Cons f fs)
  have "spi_enable (handle_result s f)"
    using Cons.prems by (rule handle_result_open)
  from Cons.IH [OF this] show ?case
    using Cons.prems by (simp add: handle_result_open split: option.split)
qed

lemma handle_enable_fields:
  "handle_enable s e = \<lparr>frames = [], spi_enable = True,
      transaction_start_time = None, transaction_end_time = None\<rparr>"
  by (simp add: handle_enable_def)

lemma reset_fields:
  "reset s = \<lparr>frames = [], spi_enable = False,
      transaction_start_time = None, transaction_end_time = None\<rparr>"
  by (simp add: reset_def)

lemma session_fields:
  "fs \<noteq> [] \<Longrightarrow>
   foldl handle_result (handle_enable s e) fs =
     \<lparr>frames = fs, spi_enable = True,
      transaction_start_time = Some (start_time (hd fs)),
      transaction_end_time = Some (end_time (last fs))\<rparr>"
  using foldl_handle_result_open [of "handle_enable s e" fs]
  by (simp add: handle_enable_fields)

lemma handle_disable_command:
  assumes "is_valid_transaction s" and "tx_mosi (get_frame_data s) = b # bs"
  shows "handle_disable str_time s c =
           Inr (\<lparr>rtype = ''command'',
                 rstart = transaction_start_time s,
                 rend = transaction_end_time s,
                 rdata = [(''cmd'', dict_get COMMANDS b ''Unknown'')]\<rparr>,
                reset s)"
  using assms by (simp add: handle_disable_def index0_def)

lemma handle_disable_error:
  assumes "\<not> is_valid_transaction s"
  shows "handle_disable str_time s c =
           Inr (\<lparr>rtype = ''error'',
                 rstart = Some (start_time c),
                 rend = Some (end_time c),
                 rdata = [(''error_info'', invalid_message str_time s)]\<rparr>,
                reset s)"
  using assms by (simp add: handle_disable_def)

lemma handle_disable_raises:
  assumes "is_valid_transaction s" and "tx_mosi (get_frame_data s) = []"
  shows "handle_disable str_time s c = Inl IndexError"
  using assms by (simp add: handle_disable_def index0_def)

lemma session_inv_init: "session_inv init"
  by (simp add: session_inv_def init_def)

lemma session_inv_reset: "session_inv (reset s)"
  by (simp add: session_inv_def reset_def)

lemma session_inv_enable: "session_inv (handle_enable s e)"
  by (simp add: session_inv_def handle_enable_def)

lemma session_inv_result:
  "session_inv s \<Longrightarrow> mosi f \<noteq> [] \<Longrightarrow> session_inv (handle_result s f)"
  by (auto simp add: session_inv_def handle_result_def Let_def)

lemma session_inv_mosi:
  assumes "session_inv s" and "is_valid_transaction s"
  shows "tx_mosi (get_frame_data s) \<noteq> []"
proof -
  from assms obtain f fs where fs: "frames s = f # fs"
    by (auto simp add: session_inv_def is_valid_transaction_def neq_Nil_conv)
  with assms(1) have "mosi f \<noteq> []"
    by (simp add: session_inv_def)
  with fs show ?thesis
    by (simp add: get_frame_data_mosi)
qed

lemma decode_session_inv:
  assumes "session_inv s" and "frame_type f = ''result'' \<longrightarrow> mosi f \<noteq> []"
  shows "\<exists>r s' out. decode str_time s f = Inr (r, s', out) \<and> session_inv s'"
proof (cases "frame_type f = ''disable''")
  case True
  show ?thesis
  proof (cases "is_valid_transaction s")
    case valid: True
    with assms(1) obtain b bs where "tx_mosi (get_frame_data s) = b # bs"
      using session_inv_mosi [of s] by (auto simp add: neq_Nil_conv)
    with valid True show ?thesis
      by (simp add: decode_def handle_disable_command session_inv_reset)
  next
    case False
    with True show ?thesis
      by (simp add: decode_def handle_disable_error session_inv_reset)
  qed
next
  case False
  with assms show ?thesis
    by (simp add: decode_def session_inv_enable session_inv_result)
qed

lemma run_session_inv:
  assumes "session_inv s" and "\<forall>f \<in> set es. frame_type f = ''result'' \<longrightarrow> mosi f \<noteq> []"
  shows "\<exists>rs s'. run str_time s es = Inr (rs, s') \<and> session_inv s'"
  using assms
proof (induction es arbitrary: s)
  case Nil
  then show ?case by simp
next
  case (Cons f es)
  from Cons.prems obtain r s1 out
    where step: "decode str_time s f = Inr (r, s1, out)" and inv1: "session_inv s1"
    using decode_session_inv [of s f str_time] by auto
  from Cons.IH [OF inv1] Cons.prems(2) obtain rs s2
    where rest: "run str_time s1 es = Inr (rs, s2)" and inv2: "session_inv s2"
    by auto
  from step rest inv2 show ?case by simp
qed

lemma COMMANDS_C0: "map_of COMMANDS 0xC0 = Some ''GetStatus''"
  by (simp add: COMMANDS_def)

lemma COMMANDS_FF: "map_of COMMANDS 0xFF = None"
  by (simp add: COMMANDS_def)

lemma COMMANDS_length: "length COMMANDS = 40"
  by (simp add: COMMANDS_def)

lemma COMMANDS_distinct: "distinct (map fst COMMANDS)"
  by (simp add: COMMANDS_def)

lemma COMMANDS_card: "card (dom (map_of COMMANDS)) = 40"
proof -
  have "dom (map_of COMMANDS) = set (map fst COMMANDS)"
    by (simp add: dom_map_of_conv_image_fst)
  then have "card (dom (map_of COMMANDS)) = length (map fst COMMANDS)"
    using COMMANDS_distinct by (simp only: distinct_card)
  then show ?thesis
    by (simp add: COMMANDS_length)
qed

subsection \<open>Closing a session\<close>

text \<open>
  C1, as the code has it. A byte frame may carry an empty \<open>mosi\<close>, and then the indexing in
  the valid branch raises. Provided the concatenated \<open>mosi\<close> bytes of a valid session are
  not empty, \<open>handle_disable\<close> returns exactly one frame and leaves the object reset to
  empty and inactive. For a valid session (\<open>spi_enable\<close> true and a start time recorded)
  the frame is a command with the recorded start and end times; otherwise it is an error
  with the times of the closing frame and a message that shows \<open>spi_enable\<close> and the start
  time field.
\<close>

theorem handle_disable_one_result_then_reset:
  assumes "is_valid_transaction s \<longrightarrow> tx_mosi (get_frame_data s) \<noteq> []"
  shows "\<exists>r. handle_disable str_time s c = Inr (r, reset s)
           \<and> reset s = \<lparr>frames = [], spi_enable = False,
                        transaction_start_time = None, transaction_end_time = None\<rparr>
           \<and> (if spi_enable s \<and> transaction_start_time s \<noteq> None
              then rtype r = ''command''
                 \<and> rstart r = transaction_start_time s
                 \<and> rend r = transaction_end_time s
              else rtype r = ''error''
                 \<and> rstart r = Some (start_time c)
                 \<and> rend r = Some (end_time c)
                 \<and> rdata r = [(''error_info'',
                      ''Invalid SPI transaction (spi_enable='' @ str_bool (spi_enable s)
                        @ '', transaction_start_time=''
                        @ str_opt str_time (transaction_start_time s) @ '')'')])"
proof (cases "is_valid_transaction s")
  case True
  with assms obtain b bs where "tx_mosi (get_frame_data s) = b # bs"
    by (auto simp add: neq_Nil_conv)
  with True show ?thesis
    by (simp add: handle_disable_command reset_fields is_valid_transaction_def)
next
  case False
  then show ?thesis
    by (simp add: handle_disable_error reset_fields is_valid_transaction_def
        invalid_message_def)
qed

text \<open>
  The theorem at a session of one byte frame, where the hypothesis holds with a valid
  session, and at a close with no session open.
\<close>

theorem handle_disable_one_result_then_reset_witness:
  "(\<exists>r. handle_disable decimal
       (handle_result
          (handle_enable init
             \<lparr>frame_type = ''enable'', start_time = 90, end_time = 90, miso = [], mosi = []\<rparr>)
          \<lparr>frame_type = ''result'', start_time = 100, end_time = 108,
            miso = [0x00], mosi = [0xC0]\<rparr>)
       \<lparr>frame_type = ''disable'', start_time = 110, end_time = 110, miso = [], mosi = []\<rparr>
     = Inr (r, init)
     \<and> rtype r = ''command'' \<and> rstart r = Some 100 \<and> rend r = Some 108)
   \<and> (\<exists>r. handle_disable decimal init
       \<lparr>frame_type = ''disable'', start_time = 7, end_time = 9, miso = [], mosi = []\<rparr>
     = Inr (r, init)
     \<and> rtype r = ''error'' \<and> rstart r = Some 7 \<and> rend r = Some 9
     \<and> rdata r = [(''error_info'',
           ''Invalid SPI transaction (spi_enable=False, transaction_start_time=None)'')])"
  using
    handle_disable_one_result_then_reset
      [where s = "handle_result
          (handle_enable init
             \<lparr>frame_type = ''enable'', start_time = 90, end_time = 90, miso = [], mosi = []\<rparr>)
          \<lparr>frame_type = ''result'', start_time = 100, end_time = 108,
            miso = [0x00], mosi = [0xC0]\<rparr>"
        and str_time = decimal
        and c = "\<lparr>frame_type = ''disable'', start_time = 110, end_time = 110,
                  miso = [], mosi = []\<rparr>"]
    handle_disable_one_result_then_reset
      [where s = "init :: nat SpiTransceiver" and str_time = decimal
        and c = "\<lparr>frame_type = ''disable'', start_time = 7, end_time = 9,
                  miso = [], mosi = []\<rparr>"]
  by (simp add: is_valid_transaction_def get_frame_data_def handle_result_def
      handle_enable_def init_def reset_def str_bool_def str_opt_def)

text \<open>
  C1 as stated fails: after a session-open frame and one byte frame with an empty \<open>mosi\<close>
  the session is valid, the close raises \<open>IndexError\<close>, returns no frame and does not
  reach the reset.
\<close>

theorem handle_disable_empty_mosi_counterexample:
  "handle_disable decimal
     (handle_result
        (handle_enable init
           \<lparr>frame_type = ''enable'', start_time = 1, end_time = 1, miso = [], mosi = []\<rparr>)
        \<lparr>frame_type = ''result'', start_time = 2, end_time = 3, miso = [], mosi = []\<rparr>)
     \<lparr>frame_type = ''disable'', start_time = 4, end_time = 4, miso = [], mosi = []\<rparr>
   = Inl IndexError"
  by (simp add: handle_disable_def is_valid_transaction_def handle_result_def
      handle_enable_def init_def get_frame_data_def index0_def)

text \<open>
  C2. When a valid session is closed, the name of the command frame is the entry of
  \<open>COMMANDS\<close> for the first \<open>mosi\<close> byte of the session, or Unknown when the table has no
  entry for it; the frame is a command in both cases. This holds for every valid object,
  and in particular after a session-open frame and byte frames whose \<open>mosi\<close> bytes start
  with that byte, where the times are those of the first and the last byte frame.
\<close>

theorem command_name_is_table_entry_of_first_byte:
  "(is_valid_transaction s \<and> tx_mosi (get_frame_data s) = b # bs \<longrightarrow>
      handle_disable str_time s c =
        Inr (\<lparr>rtype = ''command'',
              rstart = transaction_start_time s,
              rend = transaction_end_time s,
              rdata = [(''cmd'', case map_of COMMANDS b of
                                   None \<Rightarrow> ''Unknown'' | Some name \<Rightarrow> name)]\<rparr>,
             reset s))
   \<and> (concat (map mosi fs) = b # bs \<longrightarrow>
        (\<exists>t. handle_disable str_time (foldl handle_result (handle_enable s0 e) fs) c =
           Inr (\<lparr>rtype = ''command'',
                 rstart = Some (start_time (hd fs)),
                 rend = Some (end_time (last fs)),
                 rdata = [(''cmd'', case map_of COMMANDS b of
                                      None \<Rightarrow> ''Unknown'' | Some name \<Rightarrow> name)]\<rparr>,
                t)))"
proof (intro conjI impI)
  assume "is_valid_transaction s \<and> tx_mosi (get_frame_data s) = b # bs"
  then show "handle_disable str_time s c =
        Inr (\<lparr>rtype = ''command'',
              rstart = transaction_start_time s,
              rend = transaction_end_time s,
              rdata = [(''cmd'', case map_of COMMANDS b of
                                   None \<Rightarrow> ''Unknown'' | Some name \<Rightarrow> name)]\<rparr>,
             reset s)"
    by (simp add: handle_disable_command dict_get_def)
next
  let ?s = "foldl handle_result (handle_enable s0 e) fs"
  assume first: "concat (map mosi fs) = b # bs"
  then have "fs \<noteq> []" by auto
  then have fields: "?s = \<lparr>frames = fs, spi_enable = True,
      transaction_start_time = Some (start_time (hd fs)),
      transaction_end_time = Some (end_time (last fs))\<rparr>"
    by (rule session_fields)
  then have "is_valid_transaction ?s" and "tx_mosi (get_frame_data ?s) = b # bs"
    using first by (simp_all add: is_valid_transaction_def get_frame_data_mosi)
  then have "handle_disable str_time ?s c =
        Inr (\<lparr>rtype = ''command'',
              rstart = transaction_start_time ?s,
              rend = transaction_end_time ?s,
              rdata = [(''cmd'', dict_get COMMANDS b ''Unknown'')]\<rparr>,
             reset ?s)"
    by (rule handle_disable_command)
  then show "\<exists>t. handle_disable str_time ?s c =
           Inr (\<lparr>rtype = ''command'',
                 rstart = Some (start_time (hd fs)),
                 rend = Some (end_time (last fs)),
                 rdata = [(''cmd'', case map_of COMMANDS b of
                                      None \<Rightarrow> ''Unknown'' | Some name \<Rightarrow> name)]\<rparr>,
                t)"
    by (simp add: fields dict_get_def)
qed

text \<open>
  The theorem at the opcode 0xC0 of the table, with the times 100 and 108, and at the
  opcode 0xFF, which the table does not have.
\<close>

theorem command_name_is_table_entry_of_first_byte_witness:
  "handle_disable decimal
      (foldl handle_result
         (handle_enable init
            \<lparr>frame_type = ''enable'', start_time = 90, end_time = 90, miso = [], mosi = []\<rparr>)
         [\<lparr>frame_type = ''result'', start_time = 100, end_time = 108,
           miso = [0x00], mosi = [0xC0]\<rparr>])
      \<lparr>frame_type = ''disable'', start_time = 110, end_time = 110, miso = [], mosi = []\<rparr>
    = Inr (\<lparr>rtype = ''command'', rstart = Some 100, rend = Some 108,
            rdata = [(''cmd'', ''GetStatus'')]\<rparr>, init)
   \<and> handle_disable decimal
      (foldl handle_result
         (handle_enable init
            \<lparr>frame_type = ''enable'', start_time = 90, end_time = 90, miso = [], mosi = []\<rparr>)
         [\<lparr>frame_type = ''result'', start_time = 100, end_time = 108,
           miso = [0x00], mosi = [0xFF]\<rparr>,
          \<lparr>frame_type = ''result'', start_time = 109, end_time = 117,
           miso = [0x01], mosi = [0x02]\<rparr>])
      \<lparr>frame_type = ''disable'', start_time = 120, end_time = 120, miso = [], mosi = []\<rparr>
    = Inr (\<lparr>rtype = ''command'', rstart = Some 100, rend = Some 117,
            rdata = [(''cmd'', ''Unknown'')]\<rparr>, init)"
  using
    command_name_is_table_entry_of_first_byte
      [where s = "foldl handle_result
         (handle_enable init
            \<lparr>frame_type = ''enable'', start_time = 90, end_time = 90, miso = [], mosi = []\<rparr>)
         [\<lparr>frame_type = ''result'', start_time = 100, end_time = 108,
           miso = [0x00], mosi = [0xC0]\<rparr>]"
        and b = "0xC0" and bs = "[]" and str_time = decimal
        and c = "\<lparr>frame_type = ''disable'', start_time = 110, end_time = 110,
                  miso = [], mosi = []\<rparr>"
        and fs = "[\<lparr>frame_type = ''result'', start_time = 100, end_time = 108,
                    miso = [0x00], mosi = [0xC0]\<rparr>]"
        and ?s0.0 = init
        and e = "\<lparr>frame_type = ''enable'', start_time = 90, end_time = 90,
                  miso = [], mosi = []\<rparr>"]
    command_name_is_table_entry_of_first_byte
      [where s = "foldl handle_result
         (handle_enable init
            \<lparr>frame_type = ''enable'', start_time = 90, end_time = 90, miso = [], mosi = []\<rparr>)
         [\<lparr>frame_type = ''result'', start_time = 100, end_time = 108,
           miso = [0x00], mosi = [0xFF]\<rparr>,
          \<lparr>frame_type = ''result'', start_time = 109, end_time = 117,
           miso = [0x01], mosi = [0x02]\<rparr>]"
        and b = "0xFF" and bs = "[0x02]" and str_time = decimal
        and c = "\<lparr>frame_type = ''disable'', start_time = 120, end_time = 120,
                  miso = [], mosi = []\<rparr>"
        and fs = "[\<lparr>frame_type = ''result'', start_time = 100, end_time = 108,
                    miso = [0x00], mosi = [0xFF]\<rparr>,
                   \<lparr>frame_type = ''result'', start_time = 109, end_time = 117,
                    miso = [0x01], mosi = [0x02]\<rparr>]"
        and ?s0.0 = init
        and e = "\<lparr>frame_type = ''enable'', start_time = 90, end_time = 90,
                  miso = [], mosi = []\<rparr>"]
  by (simp add: COMMANDS_C0 COMMANDS_FF is_valid_transaction_def get_frame_data_def
      handle_result_def handle_enable_def init_def reset_def)

text \<open>
  C10. Two sessions whose \<open>mosi\<close> bytes start with the same byte, whose first byte frames
  start at the same time and whose last byte frames end at the same time give the same
  command frame when closed, whatever the objects before the session-open frames, the
  session-open and session-close frames, the \<open>miso\<close> bytes and the later \<open>mosi\<close> bytes are.
\<close>

theorem result_depends_on_first_byte_and_times_only:
  assumes "concat (map mosi fs1) = b # bs1"
    and "concat (map mosi fs2) = b # bs2"
    and "start_time (hd fs1) = start_time (hd fs2)"
    and "end_time (last fs1) = end_time (last fs2)"
  shows "\<exists>r. rtype r = ''command''
           \<and> handle_disable str_time (foldl handle_result (handle_enable s1 e1) fs1) c1
               = Inr (r, init)
           \<and> handle_disable str_time (foldl handle_result (handle_enable s2 e2) fs2) c2
               = Inr (r, init)"
proof -
  let ?t1 = "foldl handle_result (handle_enable s1 e1) fs1"
  let ?t2 = "foldl handle_result (handle_enable s2 e2) fs2"
  from assms(1,2) have "fs1 \<noteq> []" and "fs2 \<noteq> []" by auto
  then have t1: "?t1 = \<lparr>frames = fs1, spi_enable = True,
        transaction_start_time = Some (start_time (hd fs1)),
        transaction_end_time = Some (end_time (last fs1))\<rparr>"
    and t2: "?t2 = \<lparr>frames = fs2, spi_enable = True,
        transaction_start_time = Some (start_time (hd fs2)),
        transaction_end_time = Some (end_time (last fs2))\<rparr>"
    by (simp_all add: session_fields)
  have v1: "is_valid_transaction ?t1" and m1: "tx_mosi (get_frame_data ?t1) = b # bs1"
    using assms(1) by (simp_all add: t1 is_valid_transaction_def get_frame_data_mosi)
  have v2: "is_valid_transaction ?t2" and m2: "tx_mosi (get_frame_data ?t2) = b # bs2"
    using assms(2) by (simp_all add: t2 is_valid_transaction_def get_frame_data_mosi)
  have "handle_disable str_time ?t1 c1 =
      Inr (\<lparr>rtype = ''command'', rstart = Some (start_time (hd fs1)),
            rend = Some (end_time (last fs1)),
            rdata = [(''cmd'', dict_get COMMANDS b ''Unknown'')]\<rparr>, init)"
    using handle_disable_command [OF v1 m1, of str_time c1]
    by (simp add: t1 reset_def init_def)
  moreover have "handle_disable str_time ?t2 c2 =
      Inr (\<lparr>rtype = ''command'', rstart = Some (start_time (hd fs1)),
            rend = Some (end_time (last fs1)),
            rdata = [(''cmd'', dict_get COMMANDS b ''Unknown'')]\<rparr>, init)"
    using handle_disable_command [OF v2 m2, of str_time c2] assms(3,4)
    by (simp add: t2 reset_def init_def)
  ultimately show ?thesis by simp
qed

text \<open>
  The theorem at two sessions that share the first byte 0x80 and the times 100 and 117 and
  differ in everything else.
\<close>

theorem result_depends_on_first_byte_and_times_only_witness:
  "\<exists>r. rtype r = ''command''
      \<and> handle_disable decimal
          (foldl handle_result
             (handle_enable init
                \<lparr>frame_type = ''enable'', start_time = 90, end_time = 90,
                  miso = [], mosi = []\<rparr>)
             [\<lparr>frame_type = ''result'', start_time = 100, end_time = 108,
                miso = [0x00], mosi = [0x80]\<rparr>,
              \<lparr>frame_type = ''result'', start_time = 109, end_time = 117,
                miso = [0x11], mosi = [0x01]\<rparr>])
          \<lparr>frame_type = ''disable'', start_time = 120, end_time = 120, miso = [], mosi = []\<rparr>
        = Inr (r, init)
      \<and> handle_disable decimal
          (foldl handle_result
             (handle_enable init
                \<lparr>frame_type = ''enable'', start_time = 95, end_time = 96,
                  miso = [], mosi = []\<rparr>)
             [\<lparr>frame_type = ''result'', start_time = 100, end_time = 105,
                miso = [0xFF, 0xEE], mosi = [0x80, 0x07]\<rparr>,
              \<lparr>frame_type = ''result'', start_time = 106, end_time = 117,
                miso = [0x22], mosi = [0x09]\<rparr>])
          \<lparr>frame_type = ''disable'', start_time = 130, end_time = 131, miso = [], mosi = []\<rparr>
        = Inr (r, init)"
  using
    result_depends_on_first_byte_and_times_only
      [where ?fs1.0 = "[\<lparr>frame_type = ''result'', start_time = 100 :: nat, end_time = 108,
                         miso = [0x00], mosi = [0x80]\<rparr>,
                        \<lparr>frame_type = ''result'', start_time = 109, end_time = 117,
                         miso = [0x11], mosi = [0x01]\<rparr>]"
        and ?fs2.0 = "[\<lparr>frame_type = ''result'', start_time = 100 :: nat, end_time = 105,
                         miso = [0xFF, 0xEE], mosi = [0x80, 0x07]\<rparr>,
                        \<lparr>frame_type = ''result'', start_time = 106, end_time = 117,
                         miso = [0x22], mosi = [0x09]\<rparr>]"
        and b = "0x80" and ?bs1.0 = "[0x01]" and ?bs2.0 = "[0x07, 0x09]"
        and str_time = decimal
        and ?s1.0 = init and ?s2.0 = init
        and ?e1.0 = "\<lparr>frame_type = ''enable'', start_time = 90, end_time = 90,
                      miso = [], mosi = []\<rparr>"
        and ?e2.0 = "\<lparr>frame_type = ''enable'', start_time = 95, end_time = 96,
                      miso = [], mosi = []\<rparr>"
        and ?c1.0 = "\<lparr>frame_type = ''disable'', start_time = 120, end_time = 120,
                      miso = [], mosi = []\<rparr>"
        and ?c2.0 = "\<lparr>frame_type = ''disable'', start_time = 130, end_time = 131,
                      miso = [], mosi = []\<rparr>"]
  by simp

subsection \<open>Byte frames\<close>

text \<open>
  C3. While a session is open, a byte frame sets the start time only when none is recorded,
  keeps a recorded start time, and always sets the end time to its own. So after any
  non-empty sequence of byte frames in a session that had no start time, the start time is
  that of the first frame and the end time that of the last.
\<close>

theorem session_times_from_first_and_last_byte_frame:
  "(spi_enable s \<and> transaction_start_time s = None \<longrightarrow>
      transaction_start_time (handle_result s f) = Some (start_time f))
   \<and> (transaction_start_time s = Some t \<longrightarrow>
      transaction_start_time (handle_result s f) = Some t)
   \<and> (spi_enable s \<longrightarrow>
      transaction_end_time (handle_result s f) = Some (end_time f))
   \<and> (spi_enable s \<and> transaction_start_time s = None \<and> fs \<noteq> [] \<longrightarrow>
      transaction_start_time (foldl handle_result s fs) = Some (start_time (hd fs))
      \<and> transaction_end_time (foldl handle_result s fs) = Some (end_time (last fs)))"
proof (intro conjI impI)
  assume "spi_enable s \<and> transaction_start_time s = None"
  then show "transaction_start_time (handle_result s f) = Some (start_time f)"
    by (simp add: handle_result_open)
next
  assume "transaction_start_time s = Some t"
  then show "transaction_start_time (handle_result s f) = Some t"
    by (cases "spi_enable s") (simp_all add: handle_result_open handle_result_closed)
next
  assume "spi_enable s"
  then show "transaction_end_time (handle_result s f) = Some (end_time f)"
    by (rule handle_result_open)
next
  assume open_session: "spi_enable s \<and> transaction_start_time s = None \<and> fs \<noteq> []"
  then have "spi_enable s" by simp
  from foldl_handle_result_open [OF this, of fs] open_session
  show "transaction_start_time (foldl handle_result s fs) = Some (start_time (hd fs))"
    and "transaction_end_time (foldl handle_result s fs) = Some (end_time (last fs))"
    by simp_all
qed

text \<open>
  The theorem at the first byte frame of a session, at a second byte frame, and at a
  session of three byte frames.
\<close>

theorem session_times_from_first_and_last_byte_frame_witness:
  "transaction_start_time
     (handle_result
        (handle_enable init
           \<lparr>frame_type = ''enable'', start_time = 90, end_time = 90, miso = [], mosi = []\<rparr>)
        \<lparr>frame_type = ''result'', start_time = 100, end_time = 108,
          miso = [0x00], mosi = [0x80]\<rparr>) = Some (100 :: nat)
   \<and> transaction_start_time
     (handle_result
        \<lparr>frames = [\<lparr>frame_type = ''result'', start_time = 100, end_time = 108,
                     miso = [0x00], mosi = [0x80]\<rparr>],
          spi_enable = True,
          transaction_start_time = Some 100, transaction_end_time = Some 108\<rparr>
        \<lparr>frame_type = ''result'', start_time = 109, end_time = 117,
          miso = [0x00], mosi = [0x01]\<rparr>) = Some (100 :: nat)
   \<and> transaction_end_time
     (handle_result
        \<lparr>frames = [\<lparr>frame_type = ''result'', start_time = 100, end_time = 108,
                     miso = [0x00], mosi = [0x80]\<rparr>],
          spi_enable = True,
          transaction_start_time = Some 100, transaction_end_time = Some 108\<rparr>
        \<lparr>frame_type = ''result'', start_time = 109, end_time = 117,
          miso = [0x00], mosi = [0x01]\<rparr>) = Some (117 :: nat)
   \<and> transaction_start_time
     (foldl handle_result
        (handle_enable init
           \<lparr>frame_type = ''enable'', start_time = 90, end_time = 90, miso = [], mosi = []\<rparr>)
        [\<lparr>frame_type = ''result'', start_time = 100, end_time = 108,
           miso = [0x00], mosi = [0x80]\<rparr>,
         \<lparr>frame_type = ''result'', start_time = 109, end_time = 117,
           miso = [0x00], mosi = [0x01]\<rparr>,
         \<lparr>frame_type = ''result'', start_time = 118, end_time = 126,
           miso = [0x00], mosi = [0x02]\<rparr>]) = Some (100 :: nat)
   \<and> transaction_end_time
     (foldl handle_result
        (handle_enable init
           \<lparr>frame_type = ''enable'', start_time = 90, end_time = 90, miso = [], mosi = []\<rparr>)
        [\<lparr>frame_type = ''result'', start_time = 100, end_time = 108,
           miso = [0x00], mosi = [0x80]\<rparr>,
         \<lparr>frame_type = ''result'', start_time = 109, end_time = 117,
           miso = [0x00], mosi = [0x01]\<rparr>,
         \<lparr>frame_type = ''result'', start_time = 118, end_time = 126,
           miso = [0x00], mosi = [0x02]\<rparr>]) = Some (126 :: nat)"
  using
    session_times_from_first_and_last_byte_frame
      [where s = "handle_enable init
           \<lparr>frame_type = ''enable'', start_time = 90, end_time = 90, miso = [], mosi = []\<rparr>"
        and f = "\<lparr>frame_type = ''result'', start_time = 100 :: nat, end_time = 108,
                  miso = [0x00], mosi = [0x80]\<rparr>"
        and fs = "[\<lparr>frame_type = ''result'', start_time = 100, end_time = 108,
                    miso = [0x00], mosi = [0x80]\<rparr>,
                   \<lparr>frame_type = ''result'', start_time = 109, end_time = 117,
                    miso = [0x00], mosi = [0x01]\<rparr>,
                   \<lparr>frame_type = ''result'', start_time = 118, end_time = 126,
                    miso = [0x00], mosi = [0x02]\<rparr>]"]
    session_times_from_first_and_last_byte_frame
      [where s = "\<lparr>frames = [\<lparr>frame_type = ''result'', start_time = 100, end_time = 108,
                     miso = [0x00], mosi = [0x80]\<rparr>],
          spi_enable = True,
          transaction_start_time = Some 100, transaction_end_time = Some 108\<rparr>"
        and t = "100 :: nat"
        and f = "\<lparr>frame_type = ''result'', start_time = 109, end_time = 117,
                  miso = [0x00], mosi = [0x01]\<rparr>"]
  by (simp add: handle_enable_def init_def)

text \<open>
  C4. A byte frame that arrives while \<open>spi_enable\<close> is false is dropped: \<open>decode\<close> returns
  nothing and the object is the same in every field. This is the case in particular for
  the object that a session close leaves behind.
\<close>

theorem byte_frame_outside_session_is_dropped:
  "(\<not> spi_enable s \<longrightarrow>
      handle_result s f = s
      \<and> (frame_type f = ''result'' \<longrightarrow> decode str_time s f = Inr (None, s, [])))
   \<and> (handle_disable str_time s c = Inr (r, s') \<longrightarrow>
      handle_result s' f = s'
      \<and> (frame_type f = ''result'' \<longrightarrow> decode str_time s' f = Inr (None, s', [])))"
proof -
  have dropped: "handle_result u f = u
      \<and> (frame_type f = ''result'' \<longrightarrow> decode str_time u f = Inr (None, u, []))"
    if "\<not> spi_enable u" for u :: "'a SpiTransceiver"
    using that by (simp add: decode_def handle_result_closed)
  have "\<not> spi_enable s'" if "handle_disable str_time s c = Inr (r, s')"
  proof -
    from that have "s' = reset s"
      by (auto simp add: handle_disable_def split: if_splits sum.splits)
    then show ?thesis by (simp add: reset_def)
  qed
  with dropped show ?thesis by blast
qed

text \<open>
  The theorem at the object left by closing a session of one byte frame, and at the
  object of the constructor.
\<close>

theorem byte_frame_outside_session_is_dropped_witness:
  "handle_disable decimal
     (handle_result
        (handle_enable init
           \<lparr>frame_type = ''enable'', start_time = 90, end_time = 90, miso = [], mosi = []\<rparr>)
        \<lparr>frame_type = ''result'', start_time = 100, end_time = 108,
          miso = [0x00], mosi = [0xC0]\<rparr>)
     \<lparr>frame_type = ''disable'', start_time = 110, end_time = 110, miso = [], mosi = []\<rparr>
   = Inr (\<lparr>rtype = ''command'', rstart = Some 100, rend = Some 108,
           rdata = [(''cmd'', ''GetStatus'')]\<rparr>, init)
   \<and> \<not> spi_enable (init :: nat SpiTransceiver)
   \<and> handle_result init
     \<lparr>frame_type = ''result'', start_time = 120 :: nat, end_time = 128,
       miso = [0x00], mosi = [0x80]\<rparr> = init
   \<and> decode decimal init
     \<lparr>frame_type = ''result'', start_time = 120, end_time = 128,
       miso = [0x00], mosi = [0x80]\<rparr> = Inr (None, init, [])"
  using
    byte_frame_outside_session_is_dropped
      [where s = "handle_result
        (handle_enable init
           \<lparr>frame_type = ''enable'', start_time = 90, end_time = 90, miso = [], mosi = []\<rparr>)
        \<lparr>frame_type = ''result'', start_time = 100, end_time = 108,
          miso = [0x00], mosi = [0xC0]\<rparr>"
        and str_time = decimal
        and f = "\<lparr>frame_type = ''result'', start_time = 120, end_time = 128,
                  miso = [0x00], mosi = [0x80]\<rparr>"
        and c = "\<lparr>frame_type = ''disable'', start_time = 110, end_time = 110,
                  miso = [], mosi = []\<rparr>"
        and r = "\<lparr>rtype = ''command'', rstart = Some 100, rend = Some 108,
                  rdata = [(''cmd'', ''GetStatus'')]\<rparr>"
        and s' = "init"]
    byte_frame_outside_session_is_dropped
      [where s = "init :: nat SpiTransceiver" and str_time = decimal
        and f = "\<lparr>frame_type = ''result'', start_time = 120, end_time = 128,
                  miso = [0x00], mosi = [0x80]\<rparr>"]
  by (simp add: handle_disable_def is_valid_transaction_def get_frame_data_def index0_def
      dict_get_def COMMANDS_C0 handle_result_def handle_enable_def init_def reset_def)

subsection \<open>Opening a session\<close>

text \<open>
  C5. From every object, also one with a session open, a session-open frame makes
  \<open>decode\<close> return nothing and leaves the object with \<open>spi_enable\<close> true, no start time,
  no end time and no stored frames.
\<close>

theorem session_open_resets_any_state:
  "handle_enable s e =
     \<lparr>frames = [], spi_enable = True,
      transaction_start_time = None, transaction_end_time = None\<rparr>
   \<and> (frame_type e = ''enable'' \<longrightarrow>
        decode str_time s e =
          Inr (None,
               \<lparr>frames = [], spi_enable = True,
                transaction_start_time = None, transaction_end_time = None\<rparr>,
               []))"
  by (simp add: decode_def handle_enable_fields)

text \<open>
  The theorem at an object with a session of one byte frame still open.
\<close>

theorem session_open_resets_any_state_witness:
  "decode decimal
     (handle_result
        (handle_enable init
           \<lparr>frame_type = ''enable'', start_time = 90, end_time = 90, miso = [], mosi = []\<rparr>)
        \<lparr>frame_type = ''result'', start_time = 100, end_time = 108,
          miso = [0x00], mosi = [0xC0]\<rparr>)
     \<lparr>frame_type = ''enable'', start_time = 110, end_time = 110, miso = [], mosi = []\<rparr>
   = Inr (None,
          \<lparr>frames = [], spi_enable = True,
           transaction_start_time = None, transaction_end_time = None\<rparr>,
          [])"
  using
    session_open_resets_any_state
      [where s = "handle_result
        (handle_enable init
           \<lparr>frame_type = ''enable'', start_time = 90, end_time = 90, miso = [], mosi = []\<rparr>)
        \<lparr>frame_type = ''result'', start_time = 100, end_time = 108,
          miso = [0x00], mosi = [0xC0]\<rparr>"
        and str_time = decimal
        and e = "\<lparr>frame_type = ''enable'', start_time = 110, end_time = 110,
                  miso = [], mosi = []\<rparr>"]
  by simp

subsection \<open>The dispatch of decode\<close>

text \<open>
  C6. For a frame whose type is none of enable, result, disable and error, and at every
  object, \<open>decode\<close> returns one error frame with the start and end time of the input
  frame and a message that ends with the type of the input frame, and the object is
  unchanged.
\<close>

theorem unrecognized_frame_type_gives_error:
  assumes "frame_type f \<notin> {''enable'', ''result'', ''disable'', ''error''}"
  shows "decode str_time s f =
           Inr (Some \<lparr>rtype = ''error'',
                      rstart = Some (start_time f),
                      rend = Some (end_time f),
                      rdata = [(''error_info'',
                        ''Unexpected frame type from input analyzer: '' @ frame_type f)]\<rparr>,
                s, [])"
  using assms by (simp add: decode_def)

text \<open>
  The theorem at a frame of type trigger, with a session open.
\<close>

theorem unrecognized_frame_type_gives_error_witness:
  "decode decimal
     (handle_result
        (handle_enable init
           \<lparr>frame_type = ''enable'', start_time = 90, end_time = 90, miso = [], mosi = []\<rparr>)
        \<lparr>frame_type = ''result'', start_time = 100, end_time = 108,
          miso = [0x00], mosi = [0xC0]\<rparr>)
     \<lparr>frame_type = ''trigger'', start_time = 110, end_time = 111, miso = [], mosi = []\<rparr>
   = Inr (Some \<lparr>rtype = ''error'', rstart = Some 110, rend = Some 111,
                rdata = [(''error_info'',
                  ''Unexpected frame type from input analyzer: trigger'')]\<rparr>,
          handle_result
            (handle_enable init
               \<lparr>frame_type = ''enable'', start_time = 90, end_time = 90,
                 miso = [], mosi = []\<rparr>)
            \<lparr>frame_type = ''result'', start_time = 100, end_time = 108,
              miso = [0x00], mosi = [0xC0]\<rparr>,
          [])"
  using
    unrecognized_frame_type_gives_error
      [where s = "handle_result
        (handle_enable init
           \<lparr>frame_type = ''enable'', start_time = 90, end_time = 90, miso = [], mosi = []\<rparr>)
        \<lparr>frame_type = ''result'', start_time = 100, end_time = 108,
          miso = [0x00], mosi = [0xC0]\<rparr>"
        and str_time = decimal
        and f = "\<lparr>frame_type = ''trigger'', start_time = 110, end_time = 111,
                  miso = [], mosi = []\<rparr>"]
  by simp

text \<open>
  C7, as the code has it. A frame of type error makes \<open>decode\<close> return nothing, print one
  line and leave the object unchanged. \<open>decode\<close> returns no frame for a session-open or a
  byte frame, one frame for a frame of an unrecognized type, and one frame for a
  session-close frame provided the concatenated \<open>mosi\<close> bytes of a valid session are not
  empty.
\<close>

theorem results_per_decode_call:
  "(frame_type f = ''error'' \<longrightarrow>
      decode str_time s f =
        Inr (None, s,
             [''Received '' @ [CHR 0x27] @ ''error'' @ [CHR 0x27]
                @ '' type from input analyzer'']))
   \<and> (frame_type f = ''enable'' \<or> frame_type f = ''result'' \<longrightarrow>
        (\<exists>s'. decode str_time s f = Inr (None, s', [])))
   \<and> (frame_type f = ''disable''
        \<and> (is_valid_transaction s \<longrightarrow> tx_mosi (get_frame_data s) \<noteq> []) \<longrightarrow>
        (\<exists>r s'. decode str_time s f = Inr (Some r, s', [])))
   \<and> (frame_type f \<notin> {''enable'', ''result'', ''disable'', ''error''} \<longrightarrow>
        (\<exists>r. decode str_time s f = Inr (Some r, s, [])))"
proof (intro conjI impI)
  assume "frame_type f = ''error''"
  then show "decode str_time s f =
        Inr (None, s,
             [''Received '' @ [CHR 0x27] @ ''error'' @ [CHR 0x27]
                @ '' type from input analyzer''])"
    by (simp add: decode_def handle_error_def)
next
  assume "frame_type f = ''enable'' \<or> frame_type f = ''result''"
  then show "\<exists>s'. decode str_time s f = Inr (None, s', [])"
    by (auto simp add: decode_def)
next
  assume close: "frame_type f = ''disable''
        \<and> (is_valid_transaction s \<longrightarrow> tx_mosi (get_frame_data s) \<noteq> [])"
  show "\<exists>r s'. decode str_time s f = Inr (Some r, s', [])"
  proof (cases "is_valid_transaction s")
    case True
    with close obtain b bs where "tx_mosi (get_frame_data s) = b # bs"
      by (auto simp add: neq_Nil_conv)
    with True close show ?thesis
      by (simp add: decode_def handle_disable_command)
  next
    case False
    with close show ?thesis
      by (simp add: decode_def handle_disable_error)
  qed
next
  assume "frame_type f \<notin> {''enable'', ''result'', ''disable'', ''error''}"
  then show "\<exists>r. decode str_time s f = Inr (Some r, s, [])"
    by (simp add: decode_def)
qed

text \<open>
  The theorem at one frame of each of the four kinds.
\<close>

theorem results_per_decode_call_witness:
  "decode decimal init
     \<lparr>frame_type = ''error'', start_time = 1, end_time = 2, miso = [], mosi = []\<rparr>
   = Inr (None, init,
          [''Received '' @ [CHR 0x27] @ ''error'' @ [CHR 0x27]
             @ '' type from input analyzer''])
   \<and> (\<exists>s'. decode decimal init
     \<lparr>frame_type = ''enable'', start_time = 90, end_time = 90, miso = [], mosi = []\<rparr>
     = Inr (None, s', []))
   \<and> (\<exists>r s'. decode decimal
     (handle_result
        (handle_enable init
           \<lparr>frame_type = ''enable'', start_time = 90, end_time = 90, miso = [], mosi = []\<rparr>)
        \<lparr>frame_type = ''result'', start_time = 100, end_time = 108,
          miso = [0x00], mosi = [0xC0]\<rparr>)
     \<lparr>frame_type = ''disable'', start_time = 110, end_time = 110, miso = [], mosi = []\<rparr>
     = Inr (Some r, s', []))
   \<and> (\<exists>r. decode decimal init
     \<lparr>frame_type = ''trigger'', start_time = 3, end_time = 4, miso = [], mosi = []\<rparr>
     = Inr (Some r, init, []))"
  using
    results_per_decode_call
      [where s = "init :: nat SpiTransceiver" and str_time = decimal
        and f = "\<lparr>frame_type = ''error'', start_time = 1, end_time = 2,
                  miso = [], mosi = []\<rparr>"]
    results_per_decode_call
      [where s = "init :: nat SpiTransceiver" and str_time = decimal
        and f = "\<lparr>frame_type = ''enable'', start_time = 90, end_time = 90,
                  miso = [], mosi = []\<rparr>"]
    results_per_decode_call
      [where s = "handle_result
        (handle_enable init
           \<lparr>frame_type = ''enable'', start_time = 90, end_time = 90, miso = [], mosi = []\<rparr>)
        \<lparr>frame_type = ''result'', start_time = 100, end_time = 108,
          miso = [0x00], mosi = [0xC0]\<rparr>"
        and str_time = decimal
        and f = "\<lparr>frame_type = ''disable'', start_time = 110, end_time = 110,
                  miso = [], mosi = []\<rparr>"]
    results_per_decode_call
      [where s = "init :: nat SpiTransceiver" and str_time = decimal
        and f = "\<lparr>frame_type = ''trigger'', start_time = 3, end_time = 4,
                  miso = [], mosi = []\<rparr>"]
  by (simp add: get_frame_data_def handle_result_def handle_enable_def init_def)

text \<open>
  C7 as stated fails: closing a session of two byte frames that both have an empty \<open>mosi\<close>
  raises \<open>IndexError\<close>, so this call of \<open>decode\<close> for a session-close frame returns no
  frame.
\<close>

theorem decode_close_empty_mosi_counterexample:
  "decode decimal
     (handle_result
        (handle_result
           (handle_enable init
              \<lparr>frame_type = ''enable'', start_time = 10, end_time = 10, miso = [], mosi = []\<rparr>)
           \<lparr>frame_type = ''result'', start_time = 20, end_time = 28,
             miso = [0x55], mosi = []\<rparr>)
        \<lparr>frame_type = ''result'', start_time = 30, end_time = 38,
          miso = [0xAA], mosi = []\<rparr>)
     \<lparr>frame_type = ''disable'', start_time = 40, end_time = 40, miso = [], mosi = []\<rparr>
   = Inl IndexError"
  by (simp add: decode_def handle_disable_def is_valid_transaction_def handle_result_def
      handle_enable_def init_def get_frame_data_def index0_def)

subsection \<open>The size of the command table\<close>

text \<open>
  C8, as the code has it. The command table maps opcode bytes to names; the literal has 40
  entries with 40 distinct keys, so the dictionary has exactly 40 entries.
\<close>

theorem command_table_has_40_entries:
  "length COMMANDS = 40 \<and> distinct (map fst COMMANDS)
   \<and> card (dom (map_of COMMANDS)) = 40"
  by (simp add: COMMANDS_length COMMANDS_distinct COMMANDS_card)

text \<open>
  C8 as stated fails: the number of entries is not 41.
\<close>

theorem command_table_41_entries_counterexample:
  "card (dom (map_of COMMANDS)) \<noteq> 41"
  by (simp add: COMMANDS_card)

subsection \<open>Indexing the first byte\<close>

text \<open>
  C9. Let the analyzer be built by its constructor and driven through \<open>decode\<close> by any
  sequence of frames in which every byte frame has a non-empty \<open>mosi\<close>. Then no call
  raises, and whenever the object it ends in is a valid session, the concatenated \<open>mosi\<close>
  bytes are not empty, the indexing at 0 succeeds, and \<open>handle_disable\<close> does not raise.
\<close>

theorem first_mosi_byte_in_range:
  assumes "\<forall>f \<in> set es. frame_type f = ''result'' \<longrightarrow> mosi f \<noteq> []"
  shows "\<exists>rs s. run str_time init es = Inr (rs, s)
           \<and> (is_valid_transaction s \<longrightarrow>
                tx_mosi (get_frame_data s) \<noteq> []
                \<and> index0 (tx_mosi (get_frame_data s)) \<noteq> Inl IndexError
                \<and> handle_disable str_time s c \<noteq> Inl IndexError)"
proof -
  from assms obtain rs s
    where ran: "run str_time init es = Inr (rs, s)" and inv: "session_inv s"
    using run_session_inv [OF session_inv_init, of es str_time] by auto
  have "tx_mosi (get_frame_data s) \<noteq> []
      \<and> index0 (tx_mosi (get_frame_data s)) \<noteq> Inl IndexError
      \<and> handle_disable str_time s c \<noteq> Inl IndexError"
    if valid: "is_valid_transaction s"
  proof -
    from inv valid obtain b bs where first: "tx_mosi (get_frame_data s) = b # bs"
      using session_inv_mosi [of s] by (auto simp add: neq_Nil_conv)
    with valid show ?thesis
      by (simp add: index0_def handle_disable_command)
  qed
  with ran show ?thesis by blast
qed

text \<open>
  The theorem at a session-open frame followed by two byte frames.
\<close>

theorem first_mosi_byte_in_range_witness:
  "\<exists>rs s. run decimal init
        [\<lparr>frame_type = ''enable'', start_time = 90, end_time = 90, miso = [], mosi = []\<rparr>,
         \<lparr>frame_type = ''result'', start_time = 100, end_time = 108,
           miso = [0x00], mosi = [0x80]\<rparr>,
         \<lparr>frame_type = ''result'', start_time = 109, end_time = 117,
           miso = [0x00], mosi = [0x01]\<rparr>] = Inr (rs, s)
        \<and> is_valid_transaction s
        \<and> tx_mosi (get_frame_data s) \<noteq> []
        \<and> handle_disable decimal s
             \<lparr>frame_type = ''disable'', start_time = 120, end_time = 120,
               miso = [], mosi = []\<rparr> \<noteq> Inl IndexError"
proof -
  let ?es = "[\<lparr>frame_type = ''enable'', start_time = 90 :: nat, end_time = 90,
                miso = [], mosi = []\<rparr>,
              \<lparr>frame_type = ''result'', start_time = 100, end_time = 108,
                miso = [0x00], mosi = [0x80]\<rparr>,
              \<lparr>frame_type = ''result'', start_time = 109, end_time = 117,
                miso = [0x00], mosi = [0x01]\<rparr>]"
  let ?c = "\<lparr>frame_type = ''disable'', start_time = 120 :: nat, end_time = 120,
             miso = [], mosi = []\<rparr>"
  have hyp: "\<forall>f \<in> set ?es. frame_type f = ''result'' \<longrightarrow> mosi f \<noteq> []"
    by simp
  from first_mosi_byte_in_range [OF hyp, of decimal ?c] obtain rs s
    where ran: "run decimal init ?es = Inr (rs, s)"
      and safe: "is_valid_transaction s \<longrightarrow>
         tx_mosi (get_frame_data s) \<noteq> []
         \<and> index0 (tx_mosi (get_frame_data s)) \<noteq> Inl IndexError
         \<and> handle_disable decimal s ?c \<noteq> Inl IndexError"
    by blast
  from ran have "is_valid_transaction s"
    by (auto simp add: decode_def handle_enable_def handle_result_def init_def
        is_valid_transaction_def)
  with ran safe show ?thesis by blast
qed

end
